theory Spec2Isabelle
  imports Main
begin

section \<open>Run-time values and option objects\<close>

text \<open>
  The field classes of \<^verbatim>\<open>packages/datastore/src/fields.ts\<close> store what their option
  object holds without inspecting it, so the model carries JavaScript values as data.
  The static types of the source (\<^verbatim>\<open>boolean\<close>, \<^verbatim>\<open>string\<close>, \<^verbatim>\<open>T extends ReadonlyJSONValue\<close>)
  are erased at run time: a property may hold any value, \<^verbatim>\<open>undefined\<close> included. Numbers
  are only stored and handed back by this layer, never computed with, so they are
  carried as integers. An array or object is either JSON data carried by its content
  (\<open>JArr\<close>, \<open>JObj\<close>), which is all the constructors need since they never look inside
  a value, or a reference \<open>JRef a\<close> to a mutable object at address \<open>a\<close> of the store,
  used where it matters who else holds the object.
\<close>

datatype jsval =
    Undefined
  | Null
  | JBool bool
  | JNum int
  | JStr string
  | JArr "jsval list"
  | JObj "(string \<times> jsval) list"
  | JRef nat

text \<open>
  An option object is the map of its own properties. A key that is present with the value
  \<^verbatim>\<open>undefined\<close> (\<open>Some Undefined\<close>) differs from a key that is absent (\<open>None\<close>):
  object spread copies the first and skips the second.
\<close>

type_synonym object = "string \<rightharpoonup> jsval"

text \<open>Property read \<^verbatim>\<open>obj.k\<close>: an absent key reads as \<^verbatim>\<open>undefined\<close>.\<close>

definition read_prop :: "object \<Rightarrow> string \<Rightarrow> jsval" where
  "read_prop obj k = (case obj k of None \<Rightarrow> Undefined | Some v \<Rightarrow> v)"

text \<open>
  A parameter declared with the default \<^verbatim>\<open>= {}\<close>: the argument is \<open>None\<close> when the call
  passes nothing (or \<^verbatim>\<open>undefined\<close>), and the default applies exactly then.
\<close>

definition or_empty :: "object option \<Rightarrow> object" where
  "or_empty options = (case options of None \<Rightarrow> Map.empty | Some obj \<Rightarrow> obj)"

datatype error = TypeError

section \<open>The unique-identity service\<close>

text \<open>
  Modelled from the spec: \<^verbatim>\<open>UUID.uuid4\<close> is imported from \<^verbatim>\<open>@phosphor/coreutils\<close> and its
  code is not part of the source at hand. The spec treats it as an injected capability
  ("request-one-identity"), a process-wide generator that hands out one opaque token per
  call. The service is therefore a parameter: \<open>svc k\<close> is the token returned by the
  \<open>k\<close>-th call made in the process, and the state threaded through every constructor is
  the number of calls made so far.
\<close>

type_synonym uuid_service = "nat \<Rightarrow> string"

definition uuid4 :: "uuid_service \<Rightarrow> nat \<Rightarrow> string \<times> nat" where
  "uuid4 svc n = (svc n, Suc n)"

text \<open>
  A deterministic generator to run the model on: the \<open>k\<close>-th token is \<open>k + 1\<close> copies of
  the letter u.
\<close>

definition test_uuid :: uuid_service where
  "test_uuid k = replicate (Suc k) (CHR ''u'')"

section \<open>Fields\<close>

text \<open>
  \<^verbatim>\<open>abstract class BaseField\<close>: the three run-time properties every field has. The phantom
  members \<^verbatim>\<open>ValueType\<close> and \<^verbatim>\<open>ChangeType\<close> are never assigned and have no run-time content.
\<close>

record BaseField =
  undoable :: jsval
  description :: jsval
  uuid :: string

text \<open>
  \<^verbatim>\<open>type Field = ListField | MapField | TextField | ValueField\<close>: an object of one of the
  four classes. Only a \<^verbatim>\<open>ValueField\<close> has the further property \<^verbatim>\<open>value\<close>.
\<close>

datatype Field =
    ListField BaseField
  | MapField BaseField
  | TextField BaseField
  | ValueField BaseField jsval

text \<open>
  The base constructor. The property initialiser \<^verbatim>\<open>readonly uuid = UUID.uuid4()\<close> runs
  first, then the body merges the supplied options over the two defaults and reads the
  two keys back.
\<close>

definition BaseField_constructor :: "uuid_service \<Rightarrow> object option \<Rightarrow> nat \<Rightarrow> BaseField \<times> nat" where
  "BaseField_constructor svc options n =
     (let (token, n') = uuid4 svc n;
          opts = [''undoable'' \<mapsto> JBool True, ''description'' \<mapsto> JStr ''''] ++ or_empty options
      in (\<lparr>undoable = read_prop opts ''undoable'', description = read_prop opts ''description'',
           uuid = token\<rparr>, n'))"

definition ListField_constructor :: "uuid_service \<Rightarrow> object option \<Rightarrow> nat \<Rightarrow> Field \<times> nat" where
  "ListField_constructor svc options n =
     (let (b, n') = BaseField_constructor svc (Some (or_empty options)) n
      in (ListField b, n'))"

definition MapField_constructor :: "uuid_service \<Rightarrow> object option \<Rightarrow> nat \<Rightarrow> Field \<times> nat" where
  "MapField_constructor svc options n =
     (let (b, n') = BaseField_constructor svc (Some (or_empty options)) n
      in (MapField b, n'))"

definition TextField_constructor :: "uuid_service \<Rightarrow> object option \<Rightarrow> nat \<Rightarrow> Field \<times> nat" where
  "TextField_constructor svc options n =
     (let (b, n') = BaseField_constructor svc (Some (or_empty options)) n
      in (TextField b, n'))"

text \<open>
  \<^verbatim>\<open>ValueField\<close> declares its parameter without a default. \<^verbatim>\<open>super(options)\<close> runs the
  base constructor (where the base default applies to a missing argument), then
  \<^verbatim>\<open>options.value\<close> is read: on a missing argument that read throws a \<^verbatim>\<open>TypeError\<close>, on
  an object it yields the property or \<^verbatim>\<open>undefined\<close>. There is no other check.
\<close>

definition ValueField_constructor ::
    "uuid_service \<Rightarrow> object option \<Rightarrow> nat \<Rightarrow> (error + Field) \<times> nat" where
  "ValueField_constructor svc options n =
     (let (b, n') = BaseField_constructor svc options n
      in case options of
           None \<Rightarrow> (Inl TypeError, n')
         | Some obj \<Rightarrow> (Inr (ValueField b (read_prop obj ''value'')), n'))"

text \<open>The getters \<^verbatim>\<open>get type()\<close> of the four classes, and the property reads.\<close>

fun type :: "Field \<Rightarrow> string" where
  "type (ListField b) = ''list''"
| "type (MapField b) = ''map''"
| "type (TextField b) = ''text''"
| "type (ValueField b v) = ''value''"

fun base :: "Field \<Rightarrow> BaseField" where
  "base (ListField b) = b"
| "base (MapField b) = b"
| "base (TextField b) = b"
| "base (ValueField b v) = b"

text \<open>\<^verbatim>\<open>f.value\<close>: a property only a \<^verbatim>\<open>ValueField\<close> has; on the others the read is \<^verbatim>\<open>undefined\<close>.\<close>

fun init_value :: "Field \<Rightarrow> jsval" where
  "init_value (ValueField b v) = v"
| "init_value f = Undefined"

section \<open>The factory namespace\<close>

definition Field_Boolean :: "uuid_service \<Rightarrow> object option \<Rightarrow> nat \<Rightarrow> (error + Field) \<times> nat" where
  "Field_Boolean svc options n =
     ValueField_constructor svc (Some ([''value'' \<mapsto> JBool False] ++ or_empty options)) n"

definition Field_Number :: "uuid_service \<Rightarrow> object option \<Rightarrow> nat \<Rightarrow> (error + Field) \<times> nat" where
  "Field_Number svc options n =
     ValueField_constructor svc (Some ([''value'' \<mapsto> JNum 0] ++ or_empty options)) n"

definition Field_String :: "uuid_service \<Rightarrow> object option \<Rightarrow> nat \<Rightarrow> (error + Field) \<times> nat" where
  "Field_String svc options n =
     ValueField_constructor svc (Some ([''value'' \<mapsto> JStr ''''] ++ or_empty options)) n"

definition Field_List :: "uuid_service \<Rightarrow> object option \<Rightarrow> nat \<Rightarrow> Field \<times> nat" where
  "Field_List svc options n = ListField_constructor svc (Some (or_empty options)) n"

definition Field_Map :: "uuid_service \<Rightarrow> object option \<Rightarrow> nat \<Rightarrow> Field \<times> nat" where
  "Field_Map svc options n = MapField_constructor svc (Some (or_empty options)) n"

definition Field_Text :: "uuid_service \<Rightarrow> object option \<Rightarrow> nat \<Rightarrow> Field \<times> nat" where
  "Field_Text svc options n = TextField_constructor svc (Some (or_empty options)) n"

definition Field_Value :: "uuid_service \<Rightarrow> object option \<Rightarrow> nat \<Rightarrow> (error + Field) \<times> nat" where
  "Field_Value svc options n = ValueField_constructor svc options n"

section \<open>A process constructing fields\<close>

text \<open>
  The operations this layer offers are the four constructors and the seven factory
  functions; the \<^verbatim>\<open>type\<close> getters and the property reads are functions of the object alone.
  A process is modelled by the objects it has constructed so far, in order of construction
  (an object's position is its reference), together with the number of identities it has
  requested. A constructor that throws returns no object; the identity it requested in
  the base constructor is spent all the same.
\<close>

record process =
  objects :: "Field list"
  uuid_calls :: nat

datatype call =
    New_ListField "object option"
  | New_MapField "object option"
  | New_TextField "object option"
  | New_ValueField "object option"
  | Call_Boolean "object option"
  | Call_Number "object option"
  | Call_String "object option"
  | Call_List "object option"
  | Call_Map "object option"
  | Call_Text "object option"
  | Call_Value "object option"

fun returned :: "process \<Rightarrow> Field \<times> nat \<Rightarrow> process" where
  "returned st (f, n') = \<lparr>objects = objects st @ [f], uuid_calls = n'\<rparr>"

fun completed :: "process \<Rightarrow> (error + Field) \<times> nat \<Rightarrow> process" where
  "completed st (Inl e, n') = \<lparr>objects = objects st, uuid_calls = n'\<rparr>"
| "completed st (Inr f, n') = \<lparr>objects = objects st @ [f], uuid_calls = n'\<rparr>"

fun exec :: "uuid_service \<Rightarrow> process \<Rightarrow> call \<Rightarrow> process" where
  "exec svc st (New_ListField options) = returned st (ListField_constructor svc options (uuid_calls st))"
| "exec svc st (New_MapField options) = returned st (MapField_constructor svc options (uuid_calls st))"
| "exec svc st (New_TextField options) = returned st (TextField_constructor svc options (uuid_calls st))"
| "exec svc st (New_ValueField options) = completed st (ValueField_constructor svc options (uuid_calls st))"
| "exec svc st (Call_Boolean options) = completed st (Field_Boolean svc options (uuid_calls st))"
| "exec svc st (Call_Number options) = completed st (Field_Number svc options (uuid_calls st))"
| "exec svc st (Call_String options) = completed st (Field_String svc options (uuid_calls st))"
| "exec svc st (Call_List options) = returned st (Field_List svc options (uuid_calls st))"
| "exec svc st (Call_Map options) = returned st (Field_Map svc options (uuid_calls st))"
| "exec svc st (Call_Text options) = returned st (Field_Text svc options (uuid_calls st))"
| "exec svc st (Call_Value options) = completed st (Field_Value svc options (uuid_calls st))"

definition run :: "uuid_service \<Rightarrow> process \<Rightarrow> call list \<Rightarrow> process" where
  "run svc st calls = foldl (exec svc) st calls"


section \<open>Change records of a map field\<close>

text \<open>
  \<^verbatim>\<open>MapField.IChange<T>\<close>: two objects indexed by key, each entry a \<^verbatim>\<open>T\<close> or \<^verbatim>\<open>undefined\<close>.
  A key of the object is \<open>Some\<close> entry, and the entry is \<open>None\<close> for \<^verbatim>\<open>undefined\<close>
  (the key is absent from the map at that point) or \<open>Some v\<close> for the value \<open>v\<close>.
\<close>

record 't MapField_IChange =
  previous :: "string \<rightharpoonup> 't option"
  current :: "string \<rightharpoonup> 't option"

text \<open>
  Modelled from the spec: the engine that applies one half of a change record to a map
  (the undo manager, the patch engine) is not part of the source at hand. By the spec,
  applying a half writes each of its entries back and deletes the keys it marks absent;
  keys that are not in the record are left as they are.
\<close>

definition apply_entries :: "(string \<rightharpoonup> 't option) \<Rightarrow> (string \<rightharpoonup> 't) \<Rightarrow> (string \<rightharpoonup> 't)" where
  "apply_entries entries m = (\<lambda>k. case entries k of None \<Rightarrow> m k | Some e \<Rightarrow> e)"

text \<open>
  Modelled from the spec: the \<^verbatim>\<open>Map\<close> container of \<^verbatim>\<open>./map\<close>, whose mutations produce the
  change records, is not part of the source at hand. By the spec a mutation touches a
  set of keys, \<open>items\<close>, each either written (\<open>Some v\<close>) or deleted (\<open>None\<close>); its change
  record maps every changed key to its value before (\<open>previous\<close>) and after (\<open>current\<close>),
  or to absent where the key did not exist or no longer exists; keys in neither object
  are unchanged by the mutation. The result is the new state and the record.
\<close>

definition map_mutation ::
    "(string \<rightharpoonup> 't) \<Rightarrow> (string \<rightharpoonup> 't option) \<Rightarrow> (string \<rightharpoonup> 't) \<times> 't MapField_IChange" where
  "map_mutation m items =
     (apply_entries items m,
      \<lparr>previous = (\<lambda>k. case items k of None \<Rightarrow> None | Some e \<Rightarrow> Some (m k)),
       current = items\<rparr>)"

section \<open>Field objects in the store\<close>

text \<open>
  Whether a field can change after construction depends on what writes to the object,
  so the constructors are given a second time as the code runs them: as writes to the
  object under construction in a store of mutable objects. An object is a cell of the
  store, its address the position of the cell; the cell holds the prototype the object
  was created with (the \<^verbatim>\<open>type\<close> getter lives there) and the object's own properties.
  Nothing in the source freezes an object or defines a property as non-writable, and
  \<^verbatim>\<open>readonly\<close> is a compile-time annotation, so every own property is an ordinary
  writable one.
\<close>

datatype prototype =
    Object_prototype
  | ListField_prototype
  | MapField_prototype
  | TextField_prototype
  | ValueField_prototype

record cell =
  proto :: prototype
  props :: object

record store =
  cells :: "cell list"
  requests :: nat

text \<open>
  The assignment \<^verbatim>\<open>o.k = v\<close> on the object at address \<open>a\<close>, as the constructors use it
  on \<^verbatim>\<open>this\<close> and as any code holding a reference may.
\<close>

definition assign :: "nat \<Rightarrow> string \<Rightarrow> jsval \<Rightarrow> store \<Rightarrow> store" where
  "assign a k v s =
     (if a < length (cells s)
      then s\<lparr>cells := (cells s)[a := (cells s ! a)\<lparr>props := (props (cells s ! a))(k \<mapsto> v)\<rparr>]\<rparr>
      else s)"

text \<open>\<^verbatim>\<open>new C(...)\<close> first creates an empty object with the prototype of \<open>C\<close>.\<close>

definition allocate :: "prototype \<Rightarrow> store \<Rightarrow> nat \<times> store" where
  "allocate p s = (length (cells s), s\<lparr>cells := cells s @ [\<lparr>proto = p, props = Map.empty\<rparr>]\<rparr>)"

text \<open>
  The base constructor run on \<^verbatim>\<open>this\<close>: the initialiser assigns \<^verbatim>\<open>this.uuid\<close>, the body
  assigns \<^verbatim>\<open>this.undoable\<close> and \<^verbatim>\<open>this.description\<close>.
\<close>

definition BaseField_init :: "uuid_service \<Rightarrow> nat \<Rightarrow> object option \<Rightarrow> store \<Rightarrow> store" where
  "BaseField_init svc this options s =
     (let (token, n') = uuid4 svc (requests s);
          s1 = assign this ''uuid'' (JStr token) (s\<lparr>requests := n'\<rparr>);
          opts = [''undoable'' \<mapsto> JBool True, ''description'' \<mapsto> JStr ''''] ++ or_empty options;
          s2 = assign this ''undoable'' (read_prop opts ''undoable'') s1
      in assign this ''description'' (read_prop opts ''description'') s2)"

definition construct_ListField :: "uuid_service \<Rightarrow> object option \<Rightarrow> store \<Rightarrow> nat \<times> store" where
  "construct_ListField svc options s =
     (let (this, s0) = allocate ListField_prototype s
      in (this, BaseField_init svc this (Some (or_empty options)) s0))"

definition construct_MapField :: "uuid_service \<Rightarrow> object option \<Rightarrow> store \<Rightarrow> nat \<times> store" where
  "construct_MapField svc options s =
     (let (this, s0) = allocate MapField_prototype s
      in (this, BaseField_init svc this (Some (or_empty options)) s0))"

definition construct_TextField :: "uuid_service \<Rightarrow> object option \<Rightarrow> store \<Rightarrow> nat \<times> store" where
  "construct_TextField svc options s =
     (let (this, s0) = allocate TextField_prototype s
      in (this, BaseField_init svc this (Some (or_empty options)) s0))"

text \<open>
  \<^verbatim>\<open>this.value = options.value\<close> stores what the option holds: for an array or object,
  the caller's reference to it, not a copy.
\<close>

definition construct_ValueField ::
    "uuid_service \<Rightarrow> object option \<Rightarrow> store \<Rightarrow> (error + nat) \<times> store" where
  "construct_ValueField svc options s =
     (let (this, s0) = allocate ValueField_prototype s;
          s1 = BaseField_init svc this options s0
      in case options of
           None \<Rightarrow> (Inl TypeError, s1)
         | Some obj \<Rightarrow> (Inr this, assign this ''value'' (read_prop obj ''value'') s1))"

text \<open>
  A call of the layer, as a step of the store: the four constructors, and the seven
  factories with their bodies (the default \<^verbatim>\<open>= {}\<close>, the merge over the default value,
  the \<^verbatim>\<open>new\<close>).
\<close>

fun perform :: "uuid_service \<Rightarrow> store \<Rightarrow> call \<Rightarrow> store" where
  "perform svc s (New_ListField options) = snd (construct_ListField svc options s)"
| "perform svc s (New_MapField options) = snd (construct_MapField svc options s)"
| "perform svc s (New_TextField options) = snd (construct_TextField svc options s)"
| "perform svc s (New_ValueField options) = snd (construct_ValueField svc options s)"
| "perform svc s (Call_Boolean options) =
     snd (construct_ValueField svc (Some ([''value'' \<mapsto> JBool False] ++ or_empty options)) s)"
| "perform svc s (Call_Number options) =
     snd (construct_ValueField svc (Some ([''value'' \<mapsto> JNum 0] ++ or_empty options)) s)"
| "perform svc s (Call_String options) =
     snd (construct_ValueField svc (Some ([''value'' \<mapsto> JStr ''''] ++ or_empty options)) s)"
| "perform svc s (Call_List options) = snd (construct_ListField svc (Some (or_empty options)) s)"
| "perform svc s (Call_Map options) = snd (construct_MapField svc (Some (or_empty options)) s)"
| "perform svc s (Call_Text options) = snd (construct_TextField svc (Some (or_empty options)) s)"
| "perform svc s (Call_Value options) = snd (construct_ValueField svc options s)"

definition perform_all :: "uuid_service \<Rightarrow> store \<Rightarrow> call list \<Rightarrow> store" where
  "perform_all svc s calls = foldl (perform svc) s calls"

text \<open>
  The getter \<^verbatim>\<open>get type()\<close> found through the prototype of the object at an address; it
  has no setter and writes nothing. A plain object has no such property.
\<close>

fun prototype_type :: "prototype \<Rightarrow> jsval" where
  "prototype_type ListField_prototype = JStr ''list''"
| "prototype_type MapField_prototype = JStr ''map''"
| "prototype_type TextField_prototype = JStr ''text''"
| "prototype_type ValueField_prototype = JStr ''value''"
| "prototype_type Object_prototype = Undefined"

definition get_type :: "store \<Rightarrow> nat \<Rightarrow> jsval" where
  "get_type s a = prototype_type (proto (cells s ! a))"

text \<open>
  A store to run the model on: the caller has made one array, \<^verbatim>\<open>[1]\<close>, at address 0,
  and no identity has been requested yet.
\<close>

definition one_array :: store where
  "one_array = \<lparr>cells = [\<lparr>proto = Object_prototype, props = [''0'' \<mapsto> JNum 1]\<rparr>], requests = 0\<rparr>"

text \<open>The same store after \<^verbatim>\<open>new ValueField({value: arr})\<close>, where \<^verbatim>\<open>arr\<close> is that array.\<close>

definition with_value_field :: store where
  "with_value_field = snd (construct_ValueField test_uuid (Some [''value'' \<mapsto> JRef 0]) one_array)"


section \<open>Basic facts about the constructors\<close>

lemma BaseField_constructor_eq:
  "BaseField_constructor svc options n =
     (\<lparr>undoable = (case or_empty options ''undoable'' of None \<Rightarrow> JBool True | Some v \<Rightarrow> v),
       description = (case or_empty options ''description'' of None \<Rightarrow> JStr '''' | Some v \<Rightarrow> v),
       uuid = svc n\<rparr>, Suc n)"
  by (simp add: BaseField_constructor_def uuid4_def read_prop_def map_add_def split: option.splits)

lemma or_empty_simps [simp]:
  "or_empty None = Map.empty"
  "or_empty (Some obj) = obj"
  by (simp_all add: or_empty_def)

lemma ListField_constructor_eq:
  "ListField_constructor svc options n =
     (ListField (fst (BaseField_constructor svc (Some (or_empty options)) n)), Suc n)"
  by (simp add: ListField_constructor_def BaseField_constructor_eq)

lemma MapField_constructor_eq:
  "MapField_constructor svc options n =
     (MapField (fst (BaseField_constructor svc (Some (or_empty options)) n)), Suc n)"
  by (simp add: MapField_constructor_def BaseField_constructor_eq)

lemma TextField_constructor_eq:
  "TextField_constructor svc options n =
     (TextField (fst (BaseField_constructor svc (Some (or_empty options)) n)), Suc n)"
  by (simp add: TextField_constructor_def BaseField_constructor_eq)

lemma ValueField_constructor_Some:
  "ValueField_constructor svc (Some obj) n =
     (Inr (ValueField (fst (BaseField_constructor svc (Some obj) n)) (read_prop obj ''value'')),
      Suc n)"
  by (simp add: ValueField_constructor_def BaseField_constructor_eq)

text \<open>
  The one run-time failure of the layer: a \<^verbatim>\<open>ValueField\<close> constructed with no options
  object at all (\<^verbatim>\<open>new ValueField(undefined)\<close>) throws when \<^verbatim>\<open>options.value\<close> is read.
\<close>

lemma ValueField_constructor_None:
  "ValueField_constructor svc None n = (Inl TypeError, Suc n)"
  by (simp add: ValueField_constructor_def BaseField_constructor_eq)

section \<open>Construction of value fields\<close>

text \<open>
  C1 claims that constructing a \<^verbatim>\<open>ValueField\<close> with the \<^verbatim>\<open>value\<close> option omitted
  (\<^verbatim>\<open>Value({})\<close>, \<^verbatim>\<open>new ValueField({})\<close>) fails at construction time with a configuration
  error. The constructor has no such check: on the empty options object both calls
  return a field, whose \<^verbatim>\<open>value\<close> is \<^verbatim>\<open>undefined\<close>. The omission is excluded only by the
  static type \<^verbatim>\<open>ValueField.IOptions\<close>, which declares \<^verbatim>\<open>value\<close> as required.
\<close>

theorem Value_of_empty_options_returns_field:
  "Field_Value test_uuid (Some Map.empty) 0 =
     (Inr (ValueField \<lparr>undoable = JBool True, description = JStr '''', uuid = ''u''\<rparr> Undefined), 1)
   \<and> ValueField_constructor test_uuid (Some Map.empty) 0 =
     (Inr (ValueField \<lparr>undoable = JBool True, description = JStr '''', uuid = ''u''\<rparr> Undefined), 1)"
  by (simp add: Field_Value_def ValueField_constructor_Some BaseField_constructor_eq
      read_prop_def test_uuid_def)

text \<open>
  C1, as the code has it: constructing a \<^verbatim>\<open>ValueField\<close> from an options object never
  fails. The field returned has kind \<^verbatim>\<open>'value'\<close>, and its \<^verbatim>\<open>value\<close> is the \<^verbatim>\<open>value\<close> option
  when the object has one and \<^verbatim>\<open>undefined\<close> when it is omitted. In particular
  \<^verbatim>\<open>Value({})\<close> yields a field with \<^verbatim>\<open>value === undefined\<close>, and \<^verbatim>\<open>Value({value: 42})\<close>
  yields a field with \<^verbatim>\<open>value === 42\<close> and kind \<^verbatim>\<open>'value'\<close>.
\<close>

theorem ValueField_from_options_object:
  "ValueField_constructor svc (Some obj) n =
     (Inr (ValueField (fst (BaseField_constructor svc (Some obj) n))
            (case obj ''value'' of None \<Rightarrow> Undefined | Some v \<Rightarrow> v)), Suc n)
   \<and> Field_Value svc (Some obj) n = ValueField_constructor svc (Some obj) n
   \<and> Field_Value svc (Some Map.empty) n =
       (Inr (ValueField \<lparr>undoable = JBool True, description = JStr '''', uuid = svc n\<rparr>
              Undefined), Suc n)
   \<and> Field_Value svc (Some [''value'' \<mapsto> JNum 42]) n =
       (Inr (ValueField \<lparr>undoable = JBool True, description = JStr '''', uuid = svc n\<rparr>
              (JNum 42)), Suc n)
   \<and> map_sum id type (fst (Field_Value svc (Some obj) n)) = Inr ''value''
   \<and> map_sum id init_value (fst (Field_Value svc (Some [''value'' \<mapsto> JNum 42]) n)) =
       Inr (JNum 42)"
  by (simp add: Field_Value_def ValueField_constructor_Some BaseField_constructor_eq
      read_prop_def)

section \<open>Defaults of the factory functions\<close>

text \<open>
  C3: called with no options, \<^verbatim>\<open>Field.Boolean()\<close> returns a value field with
  \<^verbatim>\<open>value === false\<close>, \<^verbatim>\<open>Field.Number()\<close> one with \<^verbatim>\<open>value === 0\<close> and \<^verbatim>\<open>Field.String()\<close>
  one with \<^verbatim>\<open>value === ''\<close>; each has \<^verbatim>\<open>undoable === true\<close> and \<^verbatim>\<open>description === ''\<close>.
  The same holds for the empty options object.
\<close>

theorem factory_defaults:
  "Field_Boolean svc None n =
     (Inr (ValueField \<lparr>undoable = JBool True, description = JStr '''', uuid = svc n\<rparr>
            (JBool False)), Suc n)
   \<and> Field_Number svc None n =
     (Inr (ValueField \<lparr>undoable = JBool True, description = JStr '''', uuid = svc n\<rparr>
            (JNum 0)), Suc n)
   \<and> Field_String svc None n =
     (Inr (ValueField \<lparr>undoable = JBool True, description = JStr '''', uuid = svc n\<rparr>
            (JStr '''')), Suc n)
   \<and> Field_Boolean svc (Some Map.empty) n = Field_Boolean svc None n
   \<and> Field_Number svc (Some Map.empty) n = Field_Number svc None n
   \<and> Field_String svc (Some Map.empty) n = Field_String svc None n"
  by (simp add: Field_Boolean_def Field_Number_def Field_String_def
      ValueField_constructor_Some BaseField_constructor_eq read_prop_def)

text \<open>
  C10: in \<^verbatim>\<open>Field.Boolean\<close>, \<^verbatim>\<open>Field.Number\<close> and \<^verbatim>\<open>Field.String\<close> a supplied \<^verbatim>\<open>value\<close>
  option overrides the default of the factory: the field returned holds the supplied
  value whenever the options object has the key \<^verbatim>\<open>value\<close>, and the default exactly when
  the key is absent (or no options are passed).
\<close>

theorem factory_value_option_overrides_default:
  "map_sum id init_value (fst (Field_Boolean svc options n)) =
     Inr (case or_empty options ''value'' of None \<Rightarrow> JBool False | Some v \<Rightarrow> v)
   \<and> map_sum id init_value (fst (Field_Number svc options n)) =
     Inr (case or_empty options ''value'' of None \<Rightarrow> JNum 0 | Some v \<Rightarrow> v)
   \<and> map_sum id init_value (fst (Field_String svc options n)) =
     Inr (case or_empty options ''value'' of None \<Rightarrow> JStr '''' | Some v \<Rightarrow> v)
   \<and> map_sum id init_value (fst (Field_Boolean svc (Some (obj(''value'' \<mapsto> v))) n)) = Inr v
   \<and> map_sum id init_value (fst (Field_Number svc (Some (obj(''value'' \<mapsto> v))) n)) = Inr v
   \<and> map_sum id init_value (fst (Field_String svc (Some (obj(''value'' \<mapsto> v))) n)) = Inr v
   \<and> map_sum id init_value (fst (Field_Boolean svc (Some [''value'' \<mapsto> JBool True]) n)) =
       Inr (JBool True)"
  by (simp add: Field_Boolean_def Field_Number_def Field_String_def
      ValueField_constructor_Some read_prop_def map_add_def split: option.splits)

section \<open>The options merge\<close>

text \<open>
  C9: an options object whose \<^verbatim>\<open>undoable\<close> (or \<^verbatim>\<open>description\<close>) key is present with the
  value \<^verbatim>\<open>undefined\<close> does not get the default: the supplied key overwrites the default
  in the merge, and the field's \<^verbatim>\<open>undoable\<close> (or \<^verbatim>\<open>description\<close>) is \<^verbatim>\<open>undefined\<close>, not
  \<^verbatim>\<open>true\<close> (or \<^verbatim>\<open>''\<close>). Stated for the base constructor and for the four classes built
  on it; without the key the default stands.
\<close>

theorem explicit_undefined_overrides_default:
  "undoable (fst (BaseField_constructor svc (Some (obj(''undoable'' \<mapsto> Undefined))) n)) = Undefined
   \<and> description (fst (BaseField_constructor svc (Some (obj(''description'' \<mapsto> Undefined))) n))
       = Undefined
   \<and> undoable (base (fst (ListField_constructor svc (Some (obj(''undoable'' \<mapsto> Undefined))) n)))
       = Undefined
   \<and> description (base (fst (ListField_constructor svc (Some (obj(''description'' \<mapsto> Undefined))) n)))
       = Undefined
   \<and> undoable (base (fst (MapField_constructor svc (Some (obj(''undoable'' \<mapsto> Undefined))) n)))
       = Undefined
   \<and> description (base (fst (MapField_constructor svc (Some (obj(''description'' \<mapsto> Undefined))) n)))
       = Undefined
   \<and> undoable (base (fst (TextField_constructor svc (Some (obj(''undoable'' \<mapsto> Undefined))) n)))
       = Undefined
   \<and> description (base (fst (TextField_constructor svc (Some (obj(''description'' \<mapsto> Undefined))) n)))
       = Undefined
   \<and> map_sum id (undoable \<circ> base)
         (fst (ValueField_constructor svc (Some (obj(''undoable'' \<mapsto> Undefined))) n))
       = Inr Undefined
   \<and> map_sum id (description \<circ> base)
         (fst (ValueField_constructor svc (Some (obj(''description'' \<mapsto> Undefined))) n))
       = Inr Undefined
   \<and> undoable (fst (BaseField_constructor svc (Some Map.empty) n)) = JBool True
   \<and> description (fst (BaseField_constructor svc (Some Map.empty) n)) = JStr ''''"
  by (simp add: BaseField_constructor_eq ListField_constructor_eq MapField_constructor_eq
      TextField_constructor_eq ValueField_constructor_Some)

section \<open>Facts about processes\<close>

text \<open>
  Every call requests exactly one identity, and either returns no object (the constructor
  threw) or appends one object whose identity is the token of that request.
\<close>

lemma exec_shape:
  "uuid_calls (exec svc st c) = Suc (uuid_calls st) \<and>
   (objects (exec svc st c) = objects st \<or>
    (\<exists>f. objects (exec svc st c) = objects st @ [f] \<and> uuid (base f) = svc (uuid_calls st)))"
proof (cases c)
  case (New_ValueField options)
  then show ?thesis
    by (cases options)
       (simp_all add: ValueField_constructor_None ValueField_constructor_Some
          BaseField_constructor_eq)
next
  case (Call_Value options)
  then show ?thesis
    by (cases options)
       (simp_all add: Field_Value_def ValueField_constructor_None ValueField_constructor_Some
          BaseField_constructor_eq)
qed (simp_all add: ListField_constructor_eq MapField_constructor_eq TextField_constructor_eq
       ValueField_constructor_Some BaseField_constructor_eq Field_Boolean_def Field_Number_def
       Field_String_def Field_List_def Field_Map_def Field_Text_def)

lemma run_Nil [simp]: "run svc st [] = st"
  by (simp add: run_def)

lemma run_Cons [simp]: "run svc st (c # cs) = run svc (exec svc st c) cs"
  by (simp add: run_def)

lemma run_extends: "\<exists>new. objects (run svc st calls) = objects st @ new"
proof (induction calls arbitrary: st)
  case Nil
  show ?case by simp
next
  case (Cons c cs)
  obtain new where new: "objects (run svc (exec svc st c) cs) = objects (exec svc st c) @ new"
    using Cons.IH by blast
  from exec_shape [of svc st c] show ?case
    using new by auto
qed

lemma run_keeps_object:
  assumes "i < length (objects st)"
  shows "objects (run svc st calls) ! i = objects st ! i"
proof -
  obtain new where "objects (run svc st calls) = objects st @ new"
    using run_extends by blast
  with assms show ?thesis by (simp add: nth_append)
qed





section \<open>Identity\<close>




section \<open>The discriminant\<close>

text \<open>
  C2: the \<^verbatim>\<open>type\<close> getter of a freshly constructed field is the constant of its class,
  \<^verbatim>\<open>'list'\<close> for a \<^verbatim>\<open>ListField\<close>, \<^verbatim>\<open>'map'\<close> for a \<^verbatim>\<open>MapField\<close>, \<^verbatim>\<open>'text'\<close> for a \<^verbatim>\<open>TextField\<close>
  and \<^verbatim>\<open>'value'\<close> for a \<^verbatim>\<open>ValueField\<close>, whatever the options, and by constructor or
  factory alike. It is the same constant on every later access: after any further calls
  of the process, the getter on the object constructed (found at the reference it was
  given, the next free position) still returns it.
\<close>

theorem type_is_the_class_constant:
  "type (fst (ListField_constructor svc options n)) = ''list''
   \<and> type (fst (MapField_constructor svc options n)) = ''map''
   \<and> type (fst (TextField_constructor svc options n)) = ''text''
   \<and> map_sum id type (fst (ValueField_constructor svc (Some obj) n)) = Inr ''value''
   \<and> type (fst (Field_List svc options n)) = ''list''
   \<and> type (fst (Field_Map svc options n)) = ''map''
   \<and> type (fst (Field_Text svc options n)) = ''text''
   \<and> map_sum id type (fst (Field_Value svc (Some obj) n)) = Inr ''value''
   \<and> map_sum id type (fst (Field_Boolean svc options n)) = Inr ''value''
   \<and> map_sum id type (fst (Field_Number svc options n)) = Inr ''value''
   \<and> map_sum id type (fst (Field_String svc options n)) = Inr ''value''
   \<and> type (objects (run svc st (New_ListField options # calls)) ! length (objects st)) = ''list''
   \<and> type (objects (run svc st (New_MapField options # calls)) ! length (objects st)) = ''map''
   \<and> type (objects (run svc st (New_TextField options # calls)) ! length (objects st)) = ''text''
   \<and> type (objects (run svc st (New_ValueField (Some obj) # calls)) ! length (objects st))
       = ''value''"
proof -
  have later: "objects (run svc (exec svc st c) calls) ! length (objects st)
      = objects (exec svc st c) ! length (objects st)"
    if "length (objects st) < length (objects (exec svc st c))" for c
    using that by (rule run_keeps_object)
  have l: "type (objects (run svc st (New_ListField options # calls)) ! length (objects st))
      = ''list''"
    using later [of "New_ListField options"] by (simp add: ListField_constructor_eq)
  have m: "type (objects (run svc st (New_MapField options # calls)) ! length (objects st))
      = ''map''"
    using later [of "New_MapField options"] by (simp add: MapField_constructor_eq)
  have t: "type (objects (run svc st (New_TextField options # calls)) ! length (objects st))
      = ''text''"
    using later [of "New_TextField options"] by (simp add: TextField_constructor_eq)
  have v: "type (objects (run svc st (New_ValueField (Some obj) # calls)) ! length (objects st))
      = ''value''"
    using later [of "New_ValueField (Some obj)"] by (simp add: ValueField_constructor_Some)
  have direct: "type (fst (ListField_constructor svc options n)) = ''list''
      \<and> type (fst (MapField_constructor svc options n)) = ''map''
      \<and> type (fst (TextField_constructor svc options n)) = ''text''
      \<and> map_sum id type (fst (ValueField_constructor svc (Some obj) n)) = Inr ''value''"
    by (simp add: ListField_constructor_eq MapField_constructor_eq TextField_constructor_eq
        ValueField_constructor_Some)
  have factories: "type (fst (Field_List svc options n)) = ''list''
      \<and> type (fst (Field_Map svc options n)) = ''map''
      \<and> type (fst (Field_Text svc options n)) = ''text''
      \<and> map_sum id type (fst (Field_Value svc (Some obj) n)) = Inr ''value''
      \<and> map_sum id type (fst (Field_Boolean svc options n)) = Inr ''value''
      \<and> map_sum id type (fst (Field_Number svc options n)) = Inr ''value''
      \<and> map_sum id type (fst (Field_String svc options n)) = Inr ''value''"
    by (simp add: Field_List_def Field_Map_def Field_Text_def Field_Value_def Field_Boolean_def
        Field_Number_def Field_String_def ListField_constructor_eq MapField_constructor_eq
        TextField_constructor_eq ValueField_constructor_Some)
  from direct factories l m t v show ?thesis by blast
qed

section \<open>Recognized options\<close>

text \<open>
  C4: construction reads only the two recognized keys \<^verbatim>\<open>undoable\<close> (default \<^verbatim>\<open>true\<close>) and
  \<^verbatim>\<open>description\<close> (default \<^verbatim>\<open>''\<close>) of the options object. For the base constructor and
  for each of the four classes, the field constructed has as \<^verbatim>\<open>undoable\<close> and
  \<^verbatim>\<open>description\<close> the supplied values when the keys are present and the defaults
  otherwise (also when no options object is passed), and its identity is the token of
  the one request made. Every other key is ignored: the base constructor and the list,
  map and text constructors return the same result on the options object stripped of
  all other keys, and no options object makes construction fail. The \<^verbatim>\<open>ValueField\<close>
  constructor passes through the same base constructor; its own required option
  \<^verbatim>\<open>value\<close> is read by the subclass constructor, and nothing beyond these three.
\<close>

theorem construction_reads_undoable_and_description:
  "BaseField_constructor svc options n =
     (\<lparr>undoable = (case or_empty options ''undoable'' of None \<Rightarrow> JBool True | Some v \<Rightarrow> v),
       description = (case or_empty options ''description'' of None \<Rightarrow> JStr '''' | Some v \<Rightarrow> v),
       uuid = svc n\<rparr>, Suc n)
   \<and> ListField_constructor svc options n =
     (ListField
        \<lparr>undoable = (case or_empty options ''undoable'' of None \<Rightarrow> JBool True | Some v \<Rightarrow> v),
         description = (case or_empty options ''description'' of None \<Rightarrow> JStr '''' | Some v \<Rightarrow> v),
         uuid = svc n\<rparr>, Suc n)
   \<and> MapField_constructor svc options n =
     (MapField
        \<lparr>undoable = (case or_empty options ''undoable'' of None \<Rightarrow> JBool True | Some v \<Rightarrow> v),
         description = (case or_empty options ''description'' of None \<Rightarrow> JStr '''' | Some v \<Rightarrow> v),
         uuid = svc n\<rparr>, Suc n)
   \<and> TextField_constructor svc options n =
     (TextField
        \<lparr>undoable = (case or_empty options ''undoable'' of None \<Rightarrow> JBool True | Some v \<Rightarrow> v),
         description = (case or_empty options ''description'' of None \<Rightarrow> JStr '''' | Some v \<Rightarrow> v),
         uuid = svc n\<rparr>, Suc n)
   \<and> ValueField_constructor svc (Some obj) n =
     (Inr (ValueField
        \<lparr>undoable = (case obj ''undoable'' of None \<Rightarrow> JBool True | Some v \<Rightarrow> v),
         description = (case obj ''description'' of None \<Rightarrow> JStr '''' | Some v \<Rightarrow> v),
         uuid = svc n\<rparr>
        (case obj ''value'' of None \<Rightarrow> Undefined | Some v \<Rightarrow> v)), Suc n)
   \<and> BaseField_constructor svc (Some obj) n =
       BaseField_constructor svc (Some (obj |` {''undoable'', ''description''})) n
   \<and> ListField_constructor svc (Some obj) n =
       ListField_constructor svc (Some (obj |` {''undoable'', ''description''})) n
   \<and> MapField_constructor svc (Some obj) n =
       MapField_constructor svc (Some (obj |` {''undoable'', ''description''})) n
   \<and> TextField_constructor svc (Some obj) n =
       TextField_constructor svc (Some (obj |` {''undoable'', ''description''})) n
   \<and> map_sum id base (fst (ValueField_constructor svc (Some obj) n)) =
       Inr (fst (BaseField_constructor svc (Some (obj |` {''undoable'', ''description''})) n))
   \<and> ValueField_constructor svc (Some obj) n =
       ValueField_constructor svc (Some (obj |` {''undoable'', ''description'', ''value''})) n
   \<and> ListField_constructor svc
         (Some [''colour'' \<mapsto> JStr ''red'', ''undoable'' \<mapsto> JBool False]) n =
       (ListField \<lparr>undoable = JBool False, description = JStr '''', uuid = svc n\<rparr>, Suc n)"
proof -
  have results: "BaseField_constructor svc options n =
     (\<lparr>undoable = (case or_empty options ''undoable'' of None \<Rightarrow> JBool True | Some v \<Rightarrow> v),
       description = (case or_empty options ''description'' of None \<Rightarrow> JStr '''' | Some v \<Rightarrow> v),
       uuid = svc n\<rparr>, Suc n)
   \<and> ListField_constructor svc options n =
     (ListField
        \<lparr>undoable = (case or_empty options ''undoable'' of None \<Rightarrow> JBool True | Some v \<Rightarrow> v),
         description = (case or_empty options ''description'' of None \<Rightarrow> JStr '''' | Some v \<Rightarrow> v),
         uuid = svc n\<rparr>, Suc n)
   \<and> MapField_constructor svc options n =
     (MapField
        \<lparr>undoable = (case or_empty options ''undoable'' of None \<Rightarrow> JBool True | Some v \<Rightarrow> v),
         description = (case or_empty options ''description'' of None \<Rightarrow> JStr '''' | Some v \<Rightarrow> v),
         uuid = svc n\<rparr>, Suc n)
   \<and> TextField_constructor svc options n =
     (TextField
        \<lparr>undoable = (case or_empty options ''undoable'' of None \<Rightarrow> JBool True | Some v \<Rightarrow> v),
         description = (case or_empty options ''description'' of None \<Rightarrow> JStr '''' | Some v \<Rightarrow> v),
         uuid = svc n\<rparr>, Suc n)
   \<and> ValueField_constructor svc (Some obj) n =
     (Inr (ValueField
        \<lparr>undoable = (case obj ''undoable'' of None \<Rightarrow> JBool True | Some v \<Rightarrow> v),
         description = (case obj ''description'' of None \<Rightarrow> JStr '''' | Some v \<Rightarrow> v),
         uuid = svc n\<rparr>
        (case obj ''value'' of None \<Rightarrow> Undefined | Some v \<Rightarrow> v)), Suc n)"
    by (simp add: ListField_constructor_eq MapField_constructor_eq TextField_constructor_eq
        ValueField_constructor_Some BaseField_constructor_eq read_prop_def)
  have stripped: "BaseField_constructor svc (Some obj) n =
       BaseField_constructor svc (Some (obj |` {''undoable'', ''description''})) n"
    by (simp add: BaseField_constructor_eq)
  have classes: "ListField_constructor svc (Some obj) n =
        ListField_constructor svc (Some (obj |` {''undoable'', ''description''})) n
      \<and> MapField_constructor svc (Some obj) n =
        MapField_constructor svc (Some (obj |` {''undoable'', ''description''})) n
      \<and> TextField_constructor svc (Some obj) n =
        TextField_constructor svc (Some (obj |` {''undoable'', ''description''})) n
      \<and> map_sum id base (fst (ValueField_constructor svc (Some obj) n)) =
        Inr (fst (BaseField_constructor svc (Some (obj |` {''undoable'', ''description''})) n))"
    unfolding ListField_constructor_eq MapField_constructor_eq TextField_constructor_eq
      ValueField_constructor_Some or_empty_simps
    using stripped by simp
  have valued: "ValueField_constructor svc (Some obj) n =
       ValueField_constructor svc (Some (obj |` {''undoable'', ''description'', ''value''})) n"
    by (simp add: ValueField_constructor_Some BaseField_constructor_eq read_prop_def)
  have example: "ListField_constructor svc
         (Some [''colour'' \<mapsto> JStr ''red'', ''undoable'' \<mapsto> JBool False]) n =
       (ListField \<lparr>undoable = JBool False, description = JStr '''', uuid = svc n\<rparr>, Suc n)"
    by (simp add: ListField_constructor_eq BaseField_constructor_eq)
  from results stripped classes valued example show ?thesis by blast
qed

text \<open>
  C5: for each of the four kinds, constructing with \<^verbatim>\<open>undoable: false\<close> yields a field
  whose \<^verbatim>\<open>undoable\<close> is \<^verbatim>\<open>false\<close> and which is otherwise the field the same call yields
  without the override: same class and \<^verbatim>\<open>type\<close>, same \<^verbatim>\<open>description\<close> and \<^verbatim>\<open>value\<close>, and an
  identity that is the token of the one request \<^verbatim>\<open>uuid4\<close> made by the construction, which
  leaves the service in the same state either way.
\<close>

theorem undoable_false_changes_nothing_else:
  "(\<exists>b. ListField_constructor svc (Some obj) n = (ListField b, snd (uuid4 svc n))
        \<and> ListField_constructor svc (Some (obj(''undoable'' \<mapsto> JBool False))) n =
            (ListField (b\<lparr>undoable := JBool False\<rparr>), snd (uuid4 svc n))
        \<and> uuid b = fst (uuid4 svc n))
   \<and> (\<exists>b. MapField_constructor svc (Some obj) n = (MapField b, snd (uuid4 svc n))
        \<and> MapField_constructor svc (Some (obj(''undoable'' \<mapsto> JBool False))) n =
            (MapField (b\<lparr>undoable := JBool False\<rparr>), snd (uuid4 svc n))
        \<and> uuid b = fst (uuid4 svc n))
   \<and> (\<exists>b. TextField_constructor svc (Some obj) n = (TextField b, snd (uuid4 svc n))
        \<and> TextField_constructor svc (Some (obj(''undoable'' \<mapsto> JBool False))) n =
            (TextField (b\<lparr>undoable := JBool False\<rparr>), snd (uuid4 svc n))
        \<and> uuid b = fst (uuid4 svc n))
   \<and> (\<exists>b v. ValueField_constructor svc (Some obj) n = (Inr (ValueField b v), snd (uuid4 svc n))
        \<and> ValueField_constructor svc (Some (obj(''undoable'' \<mapsto> JBool False))) n =
            (Inr (ValueField (b\<lparr>undoable := JBool False\<rparr>) v), snd (uuid4 svc n))
        \<and> uuid b = fst (uuid4 svc n))
   \<and> type (fst (ListField_constructor svc (Some (obj(''undoable'' \<mapsto> JBool False))) n)) =
       type (fst (ListField_constructor svc (Some obj) n))
   \<and> type (fst (MapField_constructor svc (Some (obj(''undoable'' \<mapsto> JBool False))) n)) =
       type (fst (MapField_constructor svc (Some obj) n))
   \<and> type (fst (TextField_constructor svc (Some (obj(''undoable'' \<mapsto> JBool False))) n)) =
       type (fst (TextField_constructor svc (Some obj) n))
   \<and> map_sum id type
         (fst (ValueField_constructor svc (Some (obj(''undoable'' \<mapsto> JBool False))) n)) =
       map_sum id type (fst (ValueField_constructor svc (Some obj) n))"
  by (simp add: ListField_constructor_eq MapField_constructor_eq TextField_constructor_eq
      ValueField_constructor_Some BaseField_constructor_eq uuid4_def read_prop_def)

section \<open>Immutability\<close>

text \<open>
  The constructors as writes to the store create the objects the functional constructors
  return: the new object has the prototype of its class and exactly the properties
  \<^verbatim>\<open>uuid\<close>, \<^verbatim>\<open>undoable\<close>, \<^verbatim>\<open>description\<close> (and \<^verbatim>\<open>value\<close>) with those values, and one identity
  was requested.
\<close>

lemma construct_ListField_object:
  "fst (construct_ListField svc options s) = length (cells s)
   \<and> proto (cells (snd (construct_ListField svc options s)) ! length (cells s)) = ListField_prototype
   \<and> props (cells (snd (construct_ListField svc options s)) ! length (cells s)) =
       [''uuid'' \<mapsto> JStr (uuid (base (fst (ListField_constructor svc options (requests s))))),
        ''undoable'' \<mapsto> undoable (base (fst (ListField_constructor svc options (requests s)))),
        ''description'' \<mapsto> description (base (fst (ListField_constructor svc options (requests s))))]
   \<and> requests (snd (construct_ListField svc options s)) =
       snd (ListField_constructor svc options (requests s))"
  by (simp add: construct_ListField_def allocate_def BaseField_init_def uuid4_def assign_def
      Let_def ListField_constructor_eq BaseField_constructor_eq read_prop_def map_add_def
      split: option.splits)

lemma construct_MapField_object:
  "fst (construct_MapField svc options s) = length (cells s)
   \<and> proto (cells (snd (construct_MapField svc options s)) ! length (cells s)) = MapField_prototype
   \<and> props (cells (snd (construct_MapField svc options s)) ! length (cells s)) =
       [''uuid'' \<mapsto> JStr (uuid (base (fst (MapField_constructor svc options (requests s))))),
        ''undoable'' \<mapsto> undoable (base (fst (MapField_constructor svc options (requests s)))),
        ''description'' \<mapsto> description (base (fst (MapField_constructor svc options (requests s))))]
   \<and> requests (snd (construct_MapField svc options s)) =
       snd (MapField_constructor svc options (requests s))"
  by (simp add: construct_MapField_def allocate_def BaseField_init_def uuid4_def assign_def
      Let_def MapField_constructor_eq BaseField_constructor_eq read_prop_def map_add_def
      split: option.splits)

lemma construct_TextField_object:
  "fst (construct_TextField svc options s) = length (cells s)
   \<and> proto (cells (snd (construct_TextField svc options s)) ! length (cells s)) = TextField_prototype
   \<and> props (cells (snd (construct_TextField svc options s)) ! length (cells s)) =
       [''uuid'' \<mapsto> JStr (uuid (base (fst (TextField_constructor svc options (requests s))))),
        ''undoable'' \<mapsto> undoable (base (fst (TextField_constructor svc options (requests s)))),
        ''description'' \<mapsto> description (base (fst (TextField_constructor svc options (requests s))))]
   \<and> requests (snd (construct_TextField svc options s)) =
       snd (TextField_constructor svc options (requests s))"
  by (simp add: construct_TextField_def allocate_def BaseField_init_def uuid4_def assign_def
      Let_def TextField_constructor_eq BaseField_constructor_eq read_prop_def map_add_def
      split: option.splits)

lemma construct_ValueField_object:
  "fst (construct_ValueField svc (Some obj) s) = Inr (length (cells s))
   \<and> proto (cells (snd (construct_ValueField svc (Some obj) s)) ! length (cells s))
       = ValueField_prototype
   \<and> (\<exists>b v. ValueField_constructor svc (Some obj) (requests s) =
                (Inr (ValueField b v), requests (snd (construct_ValueField svc (Some obj) s)))
        \<and> props (cells (snd (construct_ValueField svc (Some obj) s)) ! length (cells s)) =
            [''uuid'' \<mapsto> JStr (uuid b), ''undoable'' \<mapsto> undoable b,
             ''description'' \<mapsto> description b, ''value'' \<mapsto> v])"
  by (simp add: construct_ValueField_def allocate_def BaseField_init_def uuid4_def assign_def
      Let_def ValueField_constructor_Some BaseField_constructor_eq read_prop_def map_add_def
      split: option.splits)

text \<open>An assignment changes the one object it is made on.\<close>

lemma assign_length [simp]: "length (cells (assign a k v s)) = length (cells s)"
  by (simp add: assign_def)

lemma assign_other: "b \<noteq> a \<Longrightarrow> cells (assign a k v s) ! b = cells s ! b"
  by (simp add: assign_def)

lemma BaseField_init_frame:
  "length (cells (BaseField_init svc this options s)) = length (cells s)
   \<and> (b \<noteq> this \<longrightarrow> cells (BaseField_init svc this options s) ! b = cells s ! b)"
  by (simp add: BaseField_init_def uuid4_def Let_def assign_other)

lemma allocate_frame:
  "fst (allocate p s) = length (cells s)
   \<and> length (cells (snd (allocate p s))) = Suc (length (cells s))
   \<and> (b < length (cells s) \<longrightarrow> cells (snd (allocate p s)) ! b = cells s ! b)"
  by (simp add: allocate_def nth_append)

lemma construct_ListField_frame:
  assumes "b < length (cells s)"
  shows "cells (snd (construct_ListField svc options s)) ! b = cells s ! b
       \<and> length (cells s) \<le> length (cells (snd (construct_ListField svc options s)))"
  using assms allocate_frame [of ListField_prototype s b]
    BaseField_init_frame [of svc "length (cells s)" _ "snd (allocate ListField_prototype s)" b]
  by (simp add: construct_ListField_def split_beta Let_def)

lemma construct_MapField_frame:
  assumes "b < length (cells s)"
  shows "cells (snd (construct_MapField svc options s)) ! b = cells s ! b
       \<and> length (cells s) \<le> length (cells (snd (construct_MapField svc options s)))"
  using assms allocate_frame [of MapField_prototype s b]
    BaseField_init_frame [of svc "length (cells s)" _ "snd (allocate MapField_prototype s)" b]
  by (simp add: construct_MapField_def split_beta Let_def)

lemma construct_TextField_frame:
  assumes "b < length (cells s)"
  shows "cells (snd (construct_TextField svc options s)) ! b = cells s ! b
       \<and> length (cells s) \<le> length (cells (snd (construct_TextField svc options s)))"
  using assms allocate_frame [of TextField_prototype s b]
    BaseField_init_frame [of svc "length (cells s)" _ "snd (allocate TextField_prototype s)" b]
  by (simp add: construct_TextField_def split_beta Let_def)

lemma construct_ValueField_frame:
  assumes "b < length (cells s)"
  shows "cells (snd (construct_ValueField svc options s)) ! b = cells s ! b
       \<and> length (cells s) \<le> length (cells (snd (construct_ValueField svc options s)))"
  using assms allocate_frame [of ValueField_prototype s b]
    BaseField_init_frame [of svc "length (cells s)" options
      "snd (allocate ValueField_prototype s)" b]
  by (cases options) (simp_all add: construct_ValueField_def split_beta Let_def assign_other)

lemma perform_frame:
  assumes "b < length (cells s)"
  shows "cells (perform svc s c) ! b = cells s ! b
       \<and> length (cells s) \<le> length (cells (perform svc s c))"
  using assms
  by (cases c)
     (simp_all add: construct_ListField_frame construct_MapField_frame
        construct_TextField_frame construct_ValueField_frame)

lemma perform_all_frame:
  assumes "b < length (cells s)"
  shows "cells (perform_all svc s calls) ! b = cells s ! b"
  using assms
proof (induction calls arbitrary: s)
  case Nil
  show ?case by (simp add: perform_all_def)
next
  case (Cons c cs)
  have step: "cells (perform svc s c) ! b = cells s ! b"
    and len: "b < length (cells (perform svc s c))"
    using perform_frame [OF Cons.prems, of svc c] Cons.prems by auto
  have "cells (perform_all svc (perform svc s c) cs) ! b = cells (perform svc s c) ! b"
    using len by (rule Cons.IH)
  with step show ?case by (simp add: perform_all_def)
qed

lemma with_value_field_cells:
  "cells with_value_field =
     [\<lparr>proto = Object_prototype, props = [''0'' \<mapsto> JNum 1]\<rparr>,
      \<lparr>proto = ValueField_prototype,
       props = [''uuid'' \<mapsto> JStr ''u'', ''undoable'' \<mapsto> JBool True,
                ''description'' \<mapsto> JStr '''', ''value'' \<mapsto> JRef 0]\<rparr>]"
  by (simp add: with_value_field_def construct_ValueField_def allocate_def BaseField_init_def
      uuid4_def assign_def one_array_def read_prop_def test_uuid_def Let_def)

text \<open>
  C6 claims that every field is immutable after construction: its \<^verbatim>\<open>undoable\<close>,
  \<^verbatim>\<open>description\<close>, \<^verbatim>\<open>uuid\<close>, \<^verbatim>\<open>type\<close> and \<^verbatim>\<open>value\<close> hold the same values at every point after
  the constructor returns. The constructor freezes nothing and keeps the caller's
  \<^verbatim>\<open>value\<close> by reference. After \<^verbatim>\<open>new ValueField({value: arr})\<close> with \<^verbatim>\<open>arr = [1]\<close>, the
  field (at address 1) holds a reference to the caller's array (at address 0); when the
  caller then writes \<^verbatim>\<open>arr[0] = 2\<close>, what the field's \<^verbatim>\<open>value\<close> refers to is \<^verbatim>\<open>[2]\<close>; and
  an assignment to the field's \<^verbatim>\<open>undoable\<close> from outside the layer changes it from
  \<^verbatim>\<open>true\<close> to \<^verbatim>\<open>false\<close>.
\<close>

theorem constructed_field_is_not_frozen:
  "fst (construct_ValueField test_uuid (Some [''value'' \<mapsto> JRef 0]) one_array) = Inr 1
   \<and> read_prop (props (cells with_value_field ! 1)) ''value'' = JRef 0
   \<and> read_prop (props (cells with_value_field ! 0)) ''0'' = JNum 1
   \<and> read_prop (props (cells (assign 0 ''0'' (JNum 2) with_value_field) ! 1)) ''value'' = JRef 0
   \<and> read_prop (props (cells (assign 0 ''0'' (JNum 2) with_value_field) ! 0)) ''0'' = JNum 2
   \<and> read_prop (props (cells with_value_field ! 1)) ''undoable'' = JBool True
   \<and> read_prop (props (cells (assign 1 ''undoable'' (JBool False) with_value_field) ! 1))
         ''undoable'' = JBool False"
proof -
  have "fst (construct_ValueField test_uuid (Some [''value'' \<mapsto> JRef 0]) one_array) = Inr 1"
    by (simp add: construct_ValueField_def allocate_def one_array_def split_beta Let_def)
  then show ?thesis
    by (simp add: assign_def with_value_field_cells read_prop_def)
qed

text \<open>
  C6, as the code has it: no operation of this layer mutates a field. Every constructor
  and factory call writes only to the object it creates, and the \<^verbatim>\<open>type\<close> getters write
  nothing; so after any sequence of calls of the layer, every object that existed before
  (every field, and every object a field's \<^verbatim>\<open>value\<close> refers to) is as it was, and a
  field's \<^verbatim>\<open>undoable\<close>, \<^verbatim>\<open>description\<close>, \<^verbatim>\<open>uuid\<close>, \<^verbatim>\<open>value\<close> and \<^verbatim>\<open>type\<close> are what they were.
  Beyond that the fields are protected by the compile-time \<^verbatim>\<open>readonly\<close> annotations
  only.
\<close>

theorem layer_calls_leave_existing_objects_unchanged:
  assumes "a < length (cells s)"
  shows "cells (perform_all svc s calls) ! a = cells s ! a
       \<and> read_prop (props (cells (perform_all svc s calls) ! a)) ''undoable''
           = read_prop (props (cells s ! a)) ''undoable''
       \<and> read_prop (props (cells (perform_all svc s calls) ! a)) ''description''
           = read_prop (props (cells s ! a)) ''description''
       \<and> read_prop (props (cells (perform_all svc s calls) ! a)) ''uuid''
           = read_prop (props (cells s ! a)) ''uuid''
       \<and> read_prop (props (cells (perform_all svc s calls) ! a)) ''value''
           = read_prop (props (cells s ! a)) ''value''
       \<and> get_type (perform_all svc s calls) a = get_type s a"
proof -
  have "cells (perform_all svc s calls) ! a = cells s ! a"
    using assms by (rule perform_all_frame)
  then show ?thesis by (simp add: get_type_def)
qed

theorem layer_calls_leave_existing_objects_unchanged_witness:
  "1 < length (cells with_value_field)
   \<and> cells (perform_all test_uuid with_value_field
        [Call_Number None, New_ListField (Some [''undoable'' \<mapsto> JBool False]), Call_Value None]) ! 1
       = cells with_value_field ! 1
   \<and> read_prop (props (cells (perform_all test_uuid with_value_field
        [Call_Number None, New_ListField (Some [''undoable'' \<mapsto> JBool False]), Call_Value None]) ! 1))
        ''undoable'' = JBool True"
proof -
  have len: "1 < length (cells with_value_field)"
    by (simp add: with_value_field_cells)
  have "cells (perform_all test_uuid with_value_field
        [Call_Number None, New_ListField (Some [''undoable'' \<mapsto> JBool False]), Call_Value None]) ! 1
       = cells with_value_field ! 1"
    by (rule conjunct1 [OF layer_calls_leave_existing_objects_unchanged [OF len]])
  moreover have "read_prop (props (cells with_value_field ! 1)) ''undoable'' = JBool True"
    by (simp add: with_value_field_cells read_prop_def)
  ultimately show ?thesis using len by (simp only: simp_thms)
qed

section \<open>Invertibility of map changes\<close>

text \<open>
  C8: a map change record is exactly invertible. For every map state and every mutation
  of it, applying the \<open>previous\<close> half of the change record to the state after the
  mutation (writing each key's previous entry back, deleting the keys marked absent)
  gives back the state before the mutation, as a whole; and applying the \<open>current\<close> half
  to the state before gives the state after. On the example of the spec, the state
  \<^verbatim>\<open>{a: 1}\<close> mutated to \<^verbatim>\<open>{a: 2}\<close> records \<^verbatim>\<open>{previous: {a: 1}, current: {a: 2}}\<close>, and
  applying \<^verbatim>\<open>{a: 1}\<close> to \<^verbatim>\<open>{a: 2}\<close> restores \<^verbatim>\<open>{a: 1}\<close>.
\<close>

theorem map_change_undo_restores_state:
  "apply_entries (previous (snd (map_mutation m items))) (fst (map_mutation m items)) = m
   \<and> apply_entries (current (snd (map_mutation m items))) m = fst (map_mutation m items)
   \<and> snd (map_mutation [''a'' \<mapsto> 1::int] [''a'' \<mapsto> Some 2]) =
       \<lparr>previous = [''a'' \<mapsto> Some 1], current = [''a'' \<mapsto> Some 2]\<rparr>
   \<and> fst (map_mutation [''a'' \<mapsto> 1::int] [''a'' \<mapsto> Some 2]) = [''a'' \<mapsto> 2]
   \<and> apply_entries [''a'' \<mapsto> Some 1] [''a'' \<mapsto> 2::int] = [''a'' \<mapsto> 1]"
proof -
  have undo: "apply_entries (previous (snd (map_mutation m items))) (fst (map_mutation m items)) = m"
  proof (rule ext)
    fix k
    show "apply_entries (previous (snd (map_mutation m items))) (fst (map_mutation m items)) k = m k"
      by (cases "items k") (simp_all add: apply_entries_def map_mutation_def)
  qed
  have redo: "apply_entries (current (snd (map_mutation m items))) m = fst (map_mutation m items)"
    by (simp add: map_mutation_def)
  have ex1: "snd (map_mutation [''a'' \<mapsto> 1::int] [''a'' \<mapsto> Some 2]) =
       \<lparr>previous = [''a'' \<mapsto> Some 1], current = [''a'' \<mapsto> Some 2]\<rparr>"
    by (simp add: map_mutation_def fun_eq_iff)
  have ex2: "fst (map_mutation [''a'' \<mapsto> 1::int] [''a'' \<mapsto> Some 2]) = [''a'' \<mapsto> 2]"
    by (simp add: map_mutation_def apply_entries_def fun_eq_iff)
  have ex3: "apply_entries [''a'' \<mapsto> Some 1] [''a'' \<mapsto> 2::int] = [''a'' \<mapsto> 1]"
    by (simp add: apply_entries_def fun_eq_iff)
  from undo redo ex1 ex2 ex3 show ?thesis by blast
qed

end
